theory Spec2Isabelle
  imports Main "HOL-Library.Word"
begin

section \<open>ConfidentialNewsletterLock: the subscription ledger and the key vault\<close>

text \<open>
  A shallow embedding of \<^verbatim>\<open>hardhat/contracts/ConfidentialNewsletterLock.sol\<close>.
  Every external function of the contract is a HOL function from the call's environment
  and the storage before the call to either the revert reason or the storage after the
  call together with the events emitted and the ether sent out.

  The internal functions \<^verbatim>\<open>_createOrExtendSubscription\<close> and \<^verbatim>\<open>_isSubscriptionValid\<close> are
  \<open>createOrExtendSubscription\<close> and \<open>isSubscriptionValid\<close> here.

  Conventions of the embedding:
  \<^item> \<^verbatim>\<open>uint256\<close> is \<open>256 word\<close>; Solidity 0.8 checks \<^verbatim>\<open>+\<close> and reverts with
    \<^verbatim>\<open>Panic(0x11)\<close> on overflow, which \<open>checked_add\<close> writes out.
  \<^item> A call is a top-level transaction: the \<^verbatim>\<open>nonReentrant\<close> guard is not entered when
    it starts, and a low-level value transfer is represented by its success flag
    (\<open>call_success\<close>); the code of the recipient is not part of the model.
  \<^item> Functions that are not \<^verbatim>\<open>payable\<close> are modelled for calls that carry no value.
  \<^item> \<^verbatim>\<open>Ownable\<close> (OpenZeppelin v5, imported by the contract) contributes the owner, the
    \<^verbatim>\<open>onlyOwner\<close> check and the two ownership functions; the FHE library contributes
    input verification (\<open>fromExternal\<close>, a parameter of the environment) and the access
    control list of the key handle (\<open>acl\<close>).
\<close>

type_synonym uint256 = "256 word"
type_synonym address = "160 word"
type_synonym euint256 = "256 word"
type_synonym externalEuint256 = "256 word"
type_synonym bytes = "8 word list"

datatype error =
    InsufficientPayment uint256 uint256
  | ContentKeyAlreadySet
  | ContentKeyNotSet
  | NoValidSubscription
  | NoFundsToWithdraw
  | InvalidDuration
  | InvalidPrice
  | OwnableUnauthorizedAccount address
  | OwnableInvalidOwner address
  | Panic nat
  | Error string
  | InvalidInputProof

datatype event =
    ContentKeySet address
  | SubscriptionPurchased address uint256 uint256
  | SubscriptionRenewed address uint256
  | KeyAccessGranted address
  | FundsWithdrawn address uint256
  | SubscriptionParamsUpdated uint256 uint256
  | OwnershipTransferred address address

record state =
  owner :: address
  name :: string
  subscriptionPrice :: uint256
  subscriptionDuration :: uint256
  contentKey :: euint256
  contentKeySet :: bool
  expirationTimestamps :: "address \<Rightarrow> uint256"
  totalRevenue :: uint256
  balance :: uint256
  acl :: "(euint256 \<times> address) set"

record env =
  msg_sender :: address
  msg_value :: uint256
  block_timestamp :: uint256
  this_address :: address
  call_success :: "address \<Rightarrow> uint256 \<Rightarrow> bool"
  fromExternal :: "externalEuint256 \<Rightarrow> bytes \<Rightarrow> euint256 option"

record outcome =
  post :: state
  events :: "event list"
  transfers :: "(address \<times> uint256) list"

definition checked_add :: "uint256 \<Rightarrow> uint256 \<Rightarrow> error + uint256" where
  "checked_add a b = (if unat a + unat b < 2 ^ 256 then Inr (a + b) else Inl (Panic 17))"

subsection \<open>Constructor\<close>

definition constructor :: "env \<Rightarrow> string \<Rightarrow> uint256 \<Rightarrow> uint256 \<Rightarrow> error + state" where
  "constructor e nm price duration =
     (if msg_sender e = 0 then Inl (OwnableInvalidOwner 0)
      else if duration = 0 then Inl InvalidDuration
      else Inr \<lparr>owner = msg_sender e, name = nm, subscriptionPrice = price,
                subscriptionDuration = duration, contentKey = 0, contentKeySet = False,
                expirationTimestamps = (\<lambda>_. 0), totalRevenue = 0, balance = 0,
                acl = {}\<rparr>)"

subsection \<open>Publisher functions (owner only)\<close>

definition setContentKey :: "env \<Rightarrow> externalEuint256 \<Rightarrow> bytes \<Rightarrow> state \<Rightarrow> error + outcome" where
  "setContentKey e encryptedKey inputProof s =
     (if owner s \<noteq> msg_sender e then Inl (OwnableUnauthorizedAccount (msg_sender e))
      else if contentKeySet s then Inl ContentKeyAlreadySet
      else case fromExternal e encryptedKey inputProof of
             None \<Rightarrow> Inl InvalidInputProof
           | Some k \<Rightarrow>
               Inr \<lparr>post = s\<lparr>contentKey := k, contentKeySet := True,
                             acl := insert (k, msg_sender e) (insert (k, this_address e) (acl s))\<rparr>,
                    events = [ContentKeySet (msg_sender e)],
                    transfers = []\<rparr>)"

definition updateSubscriptionParams :: "env \<Rightarrow> uint256 \<Rightarrow> uint256 \<Rightarrow> state \<Rightarrow> error + outcome" where
  "updateSubscriptionParams e newPrice newDuration s =
     (if owner s \<noteq> msg_sender e then Inl (OwnableUnauthorizedAccount (msg_sender e))
      else if newDuration = 0 then Inl InvalidDuration
      else Inr \<lparr>post = s\<lparr>subscriptionPrice := newPrice, subscriptionDuration := newDuration\<rparr>,
                events = [SubscriptionParamsUpdated newPrice newDuration],
                transfers = []\<rparr>)"

definition withdraw :: "env \<Rightarrow> state \<Rightarrow> error + outcome" where
  "withdraw e s =
     (if owner s \<noteq> msg_sender e then Inl (OwnableUnauthorizedAccount (msg_sender e))
      else if balance s = 0 then Inl NoFundsToWithdraw
      else if \<not> call_success e (owner s) (balance s) then Inl (Error ''Transfer failed'')
      else Inr \<lparr>post = s\<lparr>balance := 0\<rparr>,
                events = [FundsWithdrawn (owner s) (balance s)],
                transfers = [(owner s, balance s)]\<rparr>)"

subsection \<open>Creating and extending a subscription\<close>

definition createOrExtendSubscription ::
  "env \<Rightarrow> address \<Rightarrow> uint256 \<Rightarrow> uint256 \<Rightarrow> state \<Rightarrow> error + state \<times> event list" where
  "createOrExtendSubscription e subscriber duration pricePaid s =
     (let expirationTimestamp = expirationTimestamps s subscriber in
      case (if expirationTimestamp = 0
            then (case checked_add (block_timestamp e) duration of
                    Inl err \<Rightarrow> Inl err
                  | Inr t \<Rightarrow> Inr (t, SubscriptionPurchased subscriber t pricePaid))
            else (let baseTime = (if expirationTimestamp > block_timestamp e
                                  then expirationTimestamp else block_timestamp e)
                  in case checked_add baseTime duration of
                       Inl err \<Rightarrow> Inl err
                     | Inr t \<Rightarrow> Inr (t, SubscriptionRenewed subscriber t))) of
        Inl err \<Rightarrow> Inl err
      | Inr (newExpiration, ev) \<Rightarrow>
          (case checked_add (totalRevenue s) pricePaid of
             Inl err \<Rightarrow> Inl err
           | Inr revenue \<Rightarrow>
               Inr (s\<lparr>expirationTimestamps := (expirationTimestamps s)(subscriber := newExpiration),
                       acl := insert (contentKey s, subscriber) (acl s),
                       totalRevenue := revenue\<rparr>,
                    [ev, KeyAccessGranted subscriber])))"

definition grantSubscription :: "env \<Rightarrow> address \<Rightarrow> uint256 \<Rightarrow> state \<Rightarrow> error + outcome" where
  "grantSubscription e subscriber duration s =
     (if owner s \<noteq> msg_sender e then Inl (OwnableUnauthorizedAccount (msg_sender e))
      else if \<not> contentKeySet s then Inl ContentKeyNotSet
      else case createOrExtendSubscription e subscriber duration 0 s of
             Inl err \<Rightarrow> Inl err
           | Inr (s', evs) \<Rightarrow> Inr \<lparr>post = s', events = evs, transfers = []\<rparr>)"

subsection \<open>Subscriber functions\<close>

definition subscribe :: "env \<Rightarrow> state \<Rightarrow> error + outcome" where
  "subscribe e s =
     (if \<not> contentKeySet s then Inl ContentKeyNotSet
      else if msg_value e < subscriptionPrice s
      then Inl (InsufficientPayment (subscriptionPrice s) (msg_value e))
      else case createOrExtendSubscription e (msg_sender e) (subscriptionDuration s) (msg_value e)
                  (s\<lparr>balance := balance s + msg_value e\<rparr>) of
             Inl err \<Rightarrow> Inl err
           | Inr (s', evs) \<Rightarrow>
               if msg_value e > subscriptionPrice s'
               then (if call_success e (msg_sender e) (msg_value e - subscriptionPrice s')
                     then Inr \<lparr>post = s'\<lparr>balance := balance s' - (msg_value e - subscriptionPrice s')\<rparr>,
                               events = evs,
                               transfers = [(msg_sender e, msg_value e - subscriptionPrice s')]\<rparr>
                     else Inl (Error ''Refund failed''))
               else Inr \<lparr>post = s', events = evs, transfers = []\<rparr>)"

subsection \<open>View functions\<close>

definition isSubscriptionValid :: "env \<Rightarrow> address \<Rightarrow> state \<Rightarrow> bool" where
  "isSubscriptionValid e subscriber s = (expirationTimestamps s subscriber > block_timestamp e)"

definition getContentKey :: "env \<Rightarrow> state \<Rightarrow> error + euint256" where
  "getContentKey e s =
     (if \<not> isSubscriptionValid e (msg_sender e) s \<and> msg_sender e \<noteq> owner s
      then Inl NoValidSubscription
      else Inr (contentKey s))"

definition getSubscriptionDetails :: "env \<Rightarrow> address \<Rightarrow> state \<Rightarrow> uint256 \<times> bool" where
  "getSubscriptionDetails e subscriber s =
     (expirationTimestamps s subscriber, isSubscriptionValid e subscriber s)"

subsection \<open>Ownership functions inherited from Ownable\<close>

definition transferOwnership :: "env \<Rightarrow> address \<Rightarrow> state \<Rightarrow> error + outcome" where
  "transferOwnership e newOwner s =
     (if owner s \<noteq> msg_sender e then Inl (OwnableUnauthorizedAccount (msg_sender e))
      else if newOwner = 0 then Inl (OwnableInvalidOwner 0)
      else Inr \<lparr>post = s\<lparr>owner := newOwner\<rparr>,
                events = [OwnershipTransferred (owner s) newOwner],
                transfers = []\<rparr>)"

definition renounceOwnership :: "env \<Rightarrow> state \<Rightarrow> error + outcome" where
  "renounceOwnership e s =
     (if owner s \<noteq> msg_sender e then Inl (OwnableUnauthorizedAccount (msg_sender e))
      else Inr \<lparr>post = s\<lparr>owner := 0\<rparr>,
                events = [OwnershipTransferred (owner s) 0],
                transfers = []\<rparr>)"

subsection \<open>Transactions and their sequences\<close>

datatype call =
    SetContentKey externalEuint256 bytes
  | UpdateSubscriptionParams uint256 uint256
  | Withdraw
  | GrantSubscription address uint256
  | Subscribe
  | GetContentKey
  | GetSubscriptionDetails address
  | TransferOwnership address
  | RenounceOwnership

text \<open>The storage after a transaction: a reverted call leaves it as it was, and so does a view.\<close>

definition committed :: "state \<Rightarrow> error + outcome \<Rightarrow> state" where
  "committed s r = (case r of Inl _ \<Rightarrow> s | Inr out \<Rightarrow> post out)"

fun transact :: "env \<Rightarrow> call \<Rightarrow> state \<Rightarrow> state" where
  "transact e (SetContentKey k p) s = committed s (setContentKey e k p s)"
| "transact e (UpdateSubscriptionParams p d) s = committed s (updateSubscriptionParams e p d s)"
| "transact e Withdraw s = committed s (withdraw e s)"
| "transact e (GrantSubscription a d) s = committed s (grantSubscription e a d s)"
| "transact e Subscribe s = committed s (subscribe e s)"
| "transact e GetContentKey s = s"
| "transact e (GetSubscriptionDetails a) s = s"
| "transact e (TransferOwnership a) s = committed s (transferOwnership e a s)"
| "transact e RenounceOwnership s = committed s (renounceOwnership e s)"

fun run :: "(env \<times> call) list \<Rightarrow> state \<Rightarrow> state" where
  "run [] s = s"
| "run ((e, c) # txs) s = run txs (transact e c s)"

subsection \<open>A deployment used in the examples\<close>

text \<open>
  The scenario of the contract's tests: the publisher deploys ``Confidential Weekly'' at
  price 100 and duration 2592000 seconds (30 days), then stores the key handle 77. Every
  value transfer succeeds and input verification accepts every handle.
\<close>

definition publisher :: address where "publisher = 1"
definition alice :: address where "alice = 2"

definition tx_env :: "address \<Rightarrow> uint256 \<Rightarrow> uint256 \<Rightarrow> env" where
  "tx_env sender val t =
     \<lparr>msg_sender = sender, msg_value = val, block_timestamp = t, this_address = 99,
      call_success = (\<lambda>_ _. True), fromExternal = (\<lambda>k _. Some k)\<rparr>"

definition deployed :: state where
  "deployed =
     \<lparr>owner = publisher, name = ''Confidential Weekly'', subscriptionPrice = 100,
      subscriptionDuration = 2592000, contentKey = 0, contentKeySet = False,
      expirationTimestamps = (\<lambda>_. 0), totalRevenue = 0, balance = 0, acl = {}\<rparr>"

definition vaulted :: state where
  "vaulted = deployed\<lparr>contentKey := 77, contentKeySet := True,
                      acl := {(77, publisher), (77, 99)}\<rparr>"

section \<open>The decryption handshake of the client\<close>

text \<open>
  A shallow embedding of \<open>requestUserDecryption\<close> and \<open>decryptValue\<close> of
  \<^verbatim>\<open>src/lib/fhevm.js\<close>. The relayer SDK instance and the wallet's signer are objects of
  other packages: they are parameters, records of the functions the two functions call.
  \<^item> \<open>generateKeypair\<close> draws a key pair from the SDK's random generator, whose state \<open>'g\<close>
    is threaded through the call.
  \<^item> \<open>Date_now\<close> is the value of \<^verbatim>\<open>Date.now()\<close>, in milliseconds;
    \<^verbatim>\<open>Math.floor(Date.now() / 1000)\<close> is \<open>Date_now div 1000\<close> (exact for every time value of
    a JavaScript \<^verbatim>\<open>Date\<close>), and \<open>toString\<close> is its decimal representation.
  \<^item> An exception is a value \<open>Inl (JsError message)\<close>; every call into the SDK or the signer
    that the functions make is recorded, in order, in the list of interactions they return.
\<close>

record keypair =
  publicKey :: string
  privateKey :: string

record eip712 =
  domain :: string
  types_UserDecryptRequestVerification :: string
  message :: string

record userDecryptArgs =
  handleContractPairs :: "(string \<times> string) list"
  arg_privateKey :: string
  arg_publicKey :: string
  arg_signature :: string
  arg_contractAddresses :: "string list"
  arg_userAddress :: string
  arg_startTimeStamp :: string
  arg_durationDays :: string

datatype js_error = JsError string

record 'g relayer =
  generateKeypair :: "'g \<Rightarrow> keypair \<times> 'g"
  createEIP712 :: "string \<Rightarrow> string list \<Rightarrow> string \<Rightarrow> string \<Rightarrow> js_error + eip712"
  userDecrypt :: "userDecryptArgs \<Rightarrow> js_error + (string \<Rightarrow> nat option)"

record signer =
  signTypedData :: "string \<Rightarrow> string \<Rightarrow> string \<Rightarrow> js_error + string"
  getAddress :: "js_error + string"

datatype interaction =
    GenerateKeypair keypair
  | CreateEIP712 string "string list" string string
  | SignTypedData string string string
  | UserDecrypt userDecryptArgs

definition digit :: "nat \<Rightarrow> char" where
  "digit d = ''0123456789'' ! d"

fun toString :: "nat \<Rightarrow> string" where
  "toString n = (if n < 10 then [digit n] else toString (n div 10) @ [digit (n mod 10)])"

declare toString.simps [simp del]

fun replace :: "string \<Rightarrow> string \<Rightarrow> string \<Rightarrow> string" where
  "replace [] pat rep = (if pat = [] then rep else [])"
| "replace (c # cs) pat rep =
     (if take (length pat) (c # cs) = pat then rep @ drop (length pat) (c # cs)
      else c # replace cs pat rep)"

fun includes_str :: "string \<Rightarrow> string \<Rightarrow> bool" where
  "includes_str [] sub = (sub = [])"
| "includes_str (c # cs) sub = (take (length sub) (c # cs) = sub \<or> includes_str cs sub)"

definition requestUserDecryption ::
  "'g relayer option \<Rightarrow> nat \<Rightarrow> 'g \<Rightarrow> string \<Rightarrow> signer \<Rightarrow> string
     \<Rightarrow> (js_error + nat option) \<times> interaction list \<times> 'g" where
  "requestUserDecryption fheInstance Date_now g contractAddress signer ciphertextHandle =
     (case fheInstance of
        None \<Rightarrow> (Inl (JsError ''FHEVM not initialized''), [], g)
      | Some relayer \<Rightarrow>
          (let (keypair, g') = generateKeypair relayer g;
               handleContractPairs = [(ciphertextHandle, contractAddress)];
               startTimeStamp = toString (Date_now div 1000);
               durationDays = ''10'';
               contractAddresses = [contractAddress];
               log = [GenerateKeypair keypair,
                      CreateEIP712 (publicKey keypair) contractAddresses startTimeStamp durationDays]
           in case createEIP712 relayer (publicKey keypair) contractAddresses
                     startTimeStamp durationDays of
                Inl err \<Rightarrow> (Inl err, log, g')
              | Inr eip712 \<Rightarrow>
                  (let log = log @ [SignTypedData (domain eip712)
                                      (types_UserDecryptRequestVerification eip712) (message eip712)]
                   in case signTypedData signer (domain eip712)
                             (types_UserDecryptRequestVerification eip712) (message eip712) of
                        Inl err \<Rightarrow> (Inl err, log, g')
                      | Inr signature \<Rightarrow>
                          (case getAddress signer of
                             Inl err \<Rightarrow> (Inl err, log, g')
                           | Inr userAddress \<Rightarrow>
                               (let args = \<lparr>handleContractPairs = handleContractPairs,
                                             arg_privateKey = privateKey keypair,
                                             arg_publicKey = publicKey keypair,
                                             arg_signature = replace signature ''0x'' [],
                                             arg_contractAddresses = contractAddresses,
                                             arg_userAddress = userAddress,
                                             arg_startTimeStamp = startTimeStamp,
                                             arg_durationDays = durationDays\<rparr>
                                in case userDecrypt relayer args of
                                     Inl err \<Rightarrow> (Inl err, log @ [UserDecrypt args], g')
                                   | Inr result \<Rightarrow>
                                       (Inr (result ciphertextHandle),
                                        log @ [UserDecrypt args], g'))))))"

definition decryptValue ::
  "(nat option \<Rightarrow> 'n) \<Rightarrow> 'g relayer option \<Rightarrow> nat \<Rightarrow> 'g \<Rightarrow> string \<Rightarrow> string \<Rightarrow> signer
     \<Rightarrow> (js_error + 'n) \<times> interaction list \<times> 'g" where
  "decryptValue Number fheInstance Date_now g encryptedBytes contractAddress signer =
     (case fheInstance of
        None \<Rightarrow>
          (Inl (JsError ''FHE instance not initialized. Call initializeFheInstance() first.''),
           [], g)
      | Some fhe \<Rightarrow>
          (let catch = (\<lambda>error. case error of JsError msg \<Rightarrow>
                          if includes_str msg ''Failed to fetch'' \<or> includes_str msg ''NetworkError''
                          then JsError
                            ''Decryption service is temporarily unavailable. Please try again later.''
                          else error);
               (keypair, g') = generateKeypair fhe g;
               handleContractPairs = [(encryptedBytes, contractAddress)];
               startTimeStamp = toString (Date_now div 1000);
               durationDays = ''10'';
               contractAddresses = [contractAddress];
               log = [GenerateKeypair keypair,
                      CreateEIP712 (publicKey keypair) contractAddresses startTimeStamp durationDays]
           in case createEIP712 fhe (publicKey keypair) contractAddresses
                     startTimeStamp durationDays of
                Inl err \<Rightarrow> (Inl (catch err), log, g')
              | Inr eip712 \<Rightarrow>
                  (let log = log @ [SignTypedData (domain eip712)
                                      (types_UserDecryptRequestVerification eip712) (message eip712)]
                   in case signTypedData signer (domain eip712)
                             (types_UserDecryptRequestVerification eip712) (message eip712) of
                        Inl err \<Rightarrow> (Inl (catch err), log, g')
                      | Inr signature \<Rightarrow>
                          (case getAddress signer of
                             Inl err \<Rightarrow> (Inl (catch err), log, g')
                           | Inr userAddress \<Rightarrow>
                               (let args = \<lparr>handleContractPairs = handleContractPairs,
                                             arg_privateKey = privateKey keypair,
                                             arg_publicKey = publicKey keypair,
                                             arg_signature = replace signature ''0x'' [],
                                             arg_contractAddresses = contractAddresses,
                                             arg_userAddress = userAddress,
                                             arg_startTimeStamp = startTimeStamp,
                                             arg_durationDays = durationDays\<rparr>
                                in case userDecrypt fhe args of
                                     Inl err \<Rightarrow> (Inl (catch err), log @ [UserDecrypt args], g')
                                   | Inr result \<Rightarrow>
                                       (Inr (Number (result encryptedBytes)),
                                        log @ [UserDecrypt args], g'))))))"

subsection \<open>A relayer and a signer used in the examples\<close>

definition demo_relayer :: "nat relayer" where
  "demo_relayer =
     \<lparr>generateKeypair =
        (\<lambda>g. (\<lparr>publicKey = ''pk'' @ toString g, privateKey = ''sk'' @ toString g\<rparr>, Suc g)),
      createEIP712 = (\<lambda>pk addrs start days.
         Inr \<lparr>domain = ''Decryption'',
              types_UserDecryptRequestVerification = ''UserDecryptRequestVerification'',
              message = pk @ '','' @ concat addrs @ '','' @ start @ '','' @ days\<rparr>),
      userDecrypt = (\<lambda>args. Inr (\<lambda>h. if h = ''0xbeef'' then Some 42 else None))\<rparr>"

definition demo_signer :: signer where
  "demo_signer = \<lparr>signTypedData = (\<lambda>d t m. Inr (''0x'' @ m)), getAddress = Inr ''0xA11CE''\<rparr>"

section \<open>The envelope codec of the client\<close>

text \<open>
  A shallow embedding of \<^verbatim>\<open>src/lib/crypto.ts\<close>: \<open>hexToBytes\<close>, \<open>bytesToBase64\<close>,
  \<open>base64ToBytes\<close>, \<open>importAesKey\<close>, \<open>generateIv\<close>, \<open>encryptContent\<close> and \<open>decryptContent\<close>.
  \<^item> A string of the program is the list of its UTF-16 code units (\<open>16 word list\<close>, since the
    claim about the codec depends on what a string can hold); a \<^verbatim>\<open>Uint8Array\<close> is a list of
    bytes.
  \<^item> The functions of the language and of the browser that \<^verbatim>\<open>crypto.ts\<close> calls are written out
    from their standards: \<^verbatim>\<open>parseInt(_, 16)\<close> and the store into a \<^verbatim>\<open>Uint8Array\<close> (ECMAScript),
    \<^verbatim>\<open>btoa\<close> and \<^verbatim>\<open>atob\<close> (forgiving-base64 of the WHATWG Infra standard),
    \<^verbatim>\<open>new TextEncoder().encode\<close> and \<^verbatim>\<open>new TextDecoder().decode\<close> (UTF-8 of the WHATWG Encoding
    standard: the encoder first replaces every lone surrogate by U+FFFD, the decoder drops a
    leading byte order mark and replaces ill-formed input by U+FFFD).
  \<^item> AES-GCM and the random generator of Web Crypto are parameters, the record \<open>crypto\<close>:
    \<open>importKey\<close>, \<open>encrypt\<close> and \<open>decrypt\<close> stand for \<^verbatim>\<open>crypto.subtle\<close> with the algorithm
    \<^verbatim>\<open>AES-GCM\<close>, \<open>getRandomValues\<close> threads the generator's state \<open>'g\<close>.
  \<^item> A rejected promise or a thrown exception is a value \<open>Inl (JsError name)\<close>.
  \<^item> \<open>parseInt16\<close> is exact on the strings of at most two characters that \<open>hexToBytes\<close>
    passes; \<^verbatim>\<open>new Uint8Array(n / 2)\<close> truncates an odd \<open>n / 2\<close>, so the loop runs
    \<open>length cleanHex div 2\<close> times.
\<close>

type_synonym js_string = "16 word list"
type_synonym Uint8Array = "8 word list"

subsection \<open>Strings, parseInt and the store into a Uint8Array\<close>

definition startsWith :: "js_string \<Rightarrow> js_string \<Rightarrow> bool" where
  "startsWith s p = (take (length p) s = p)"

definition slice :: "js_string \<Rightarrow> nat \<Rightarrow> js_string" where
  "slice s start = drop start s"

definition substr :: "js_string \<Rightarrow> nat \<Rightarrow> nat \<Rightarrow> js_string" where
  "substr s start len = take len (drop start s)"

definition StrWhiteSpaceChar :: "nat \<Rightarrow> bool" where
  "StrWhiteSpaceChar c =
     (c \<in> {0x9, 0xA, 0xB, 0xC, 0xD, 0x20, 0xA0, 0x1680, 0x2028, 0x2029, 0x202F, 0x205F,
            0x3000, 0xFEFF} \<or> 0x2000 \<le> c \<and> c \<le> 0x200A)"

definition is_hex_digit :: "nat \<Rightarrow> bool" where
  "is_hex_digit c = (48 \<le> c \<and> c \<le> 57 \<or> 65 \<le> c \<and> c \<le> 70 \<or> 97 \<le> c \<and> c \<le> 102)"

definition hex_digit_value :: "nat \<Rightarrow> nat" where
  "hex_digit_value c = (if c \<le> 57 then c - 48 else if c \<le> 70 then c - 55 else c - 87)"

definition parseInt16 :: "js_string \<Rightarrow> int option" where
  "parseInt16 string =
     (let S = dropWhile StrWhiteSpaceChar (map unat string);
          sign = (if S \<noteq> [] \<and> hd S = 45 then - 1 else 1);
          S = (if S \<noteq> [] \<and> (hd S = 43 \<or> hd S = 45) then tl S else S);
          S = (if take 2 S = [48, 120] \<or> take 2 S = [48, 88] then drop 2 S else S);
          Z = takeWhile is_hex_digit S
      in if Z = [] then None
         else Some (sign * int (foldl (\<lambda>n c. 16 * n + hex_digit_value c) 0 Z)))"

definition ToUint8 :: "int option \<Rightarrow> 8 word" where
  "ToUint8 number = (case number of None \<Rightarrow> 0 | Some i \<Rightarrow> of_int i)"

subsection \<open>btoa and atob\<close>

definition base64_char :: "nat \<Rightarrow> nat" where
  "base64_char i =
     (if i < 26 then 65 + i else if i < 52 then 71 + i else if i < 62 then i - 4
      else if i = 62 then 43 else 47)"

definition base64_index :: "nat \<Rightarrow> nat option" where
  "base64_index c =
     (if 65 \<le> c \<and> c \<le> 90 then Some (c - 65)
      else if 97 \<le> c \<and> c \<le> 122 then Some (c - 71)
      else if 48 \<le> c \<and> c \<le> 57 then Some (c + 4)
      else if c = 43 then Some 62
      else if c = 47 then Some 63
      else None)"

fun sextets :: "nat list \<Rightarrow> nat list" where
  "sextets (a # b # c # bytes) =
     [a div 4, (a mod 4) * 16 + b div 16, (b mod 16) * 4 + c div 64, c mod 64] @ sextets bytes"
| "sextets [a, b] = [a div 4, (a mod 4) * 16 + b div 16, (b mod 16) * 4]"
| "sextets [a] = [a div 4, (a mod 4) * 16]"
| "sextets [] = []"

definition base64_encode :: "nat list \<Rightarrow> nat list" where
  "base64_encode bytes =
     map base64_char (sextets bytes) @ replicate ((3 - length bytes mod 3) mod 3) 61"

definition btoa :: "js_string \<Rightarrow> js_error + js_string" where
  "btoa data =
     (if list_all (\<lambda>u. u \<le> 0xFF) data
      then Inr (map of_nat (base64_encode (map unat data)))
      else Inl (JsError ''InvalidCharacterError''))"

definition ascii_whitespace :: "nat \<Rightarrow> bool" where
  "ascii_whitespace c = (c = 0x9 \<or> c = 0xA \<or> c = 0xC \<or> c = 0xD \<or> c = 0x20)"

definition remove_padding :: "nat list \<Rightarrow> nat list" where
  "remove_padding s =
     (if length s mod 4 = 0 \<and> s \<noteq> [] \<and> last s = 61
      then (if butlast s \<noteq> [] \<and> last (butlast s) = 61 then butlast (butlast s) else butlast s)
      else s)"

fun octets :: "nat list \<Rightarrow> nat list" where
  "octets (w # x # y # z # s) =
     [w * 4 + x div 16, (x mod 16) * 16 + y div 4, (y mod 4) * 64 + z] @ octets s"
| "octets [w, x, y] = [w * 4 + x div 16, (x mod 16) * 16 + y div 4]"
| "octets [w, x] = [w * 4 + x div 16]"
| "octets [w] = []"
| "octets [] = []"

definition forgiving_base64_decode :: "nat list \<Rightarrow> nat list option" where
  "forgiving_base64_decode data =
     (let s = remove_padding (filter (\<lambda>c. \<not> ascii_whitespace c) data)
      in if length s mod 4 = 1 then None
         else map_option octets (those (map base64_index s)))"

definition atob :: "js_string \<Rightarrow> js_error + js_string" where
  "atob data =
     (case forgiving_base64_decode (map unat data) of
        None \<Rightarrow> Inl (JsError ''InvalidCharacterError'')
      | Some bytes \<Rightarrow> Inr (map of_nat bytes))"

subsection \<open>TextEncoder and TextDecoder\<close>

fun scalar_values :: "nat list \<Rightarrow> nat list" where
  "scalar_values (u # v # s) =
     (if 0xD800 \<le> u \<and> u < 0xDC00 \<and> 0xDC00 \<le> v \<and> v < 0xE000
      then (0x10000 + (u - 0xD800) * 0x400 + (v - 0xDC00)) # scalar_values s
      else if 0xD800 \<le> u \<and> u < 0xE000 then 0xFFFD # scalar_values (v # s)
      else u # scalar_values (v # s))"
| "scalar_values [u] = (if 0xD800 \<le> u \<and> u < 0xE000 then [0xFFFD] else [u])"
| "scalar_values [] = []"

definition utf8_bytes :: "nat \<Rightarrow> nat list" where
  "utf8_bytes c =
     (if c < 0x80 then [c]
      else if c < 0x800 then [0xC0 + c div 64, 0x80 + c mod 64]
      else if c < 0x10000 then [0xE0 + c div 4096, 0x80 + c div 64 mod 64, 0x80 + c mod 64]
      else [0xF0 + c div 262144, 0x80 + c div 4096 mod 64, 0x80 + c div 64 mod 64,
            0x80 + c mod 64])"

definition utf8_encode :: "nat list \<Rightarrow> nat list" where
  "utf8_encode cs = concat (map utf8_bytes cs)"

definition TextEncoder_encode :: "js_string \<Rightarrow> Uint8Array" where
  "TextEncoder_encode input = map of_nat (utf8_encode (scalar_values (map unat input)))"

record utf8_decoder =
  code_point :: nat
  bytes_seen :: nat
  bytes_needed :: nat
  lower_boundary :: nat
  upper_boundary :: nat

definition utf8_decoder_init :: utf8_decoder where
  "utf8_decoder_init =
     \<lparr>code_point = 0, bytes_seen = 0, bytes_needed = 0, lower_boundary = 0x80,
      upper_boundary = 0xBF\<rparr>"

definition utf8_lead :: "nat \<Rightarrow> utf8_decoder \<times> nat list" where
  "utf8_lead b =
     (if b \<le> 0x7F then (utf8_decoder_init, [b])
      else if 0xC2 \<le> b \<and> b \<le> 0xDF
      then (utf8_decoder_init\<lparr>bytes_needed := 1, code_point := b mod 32\<rparr>, [])
      else if 0xE0 \<le> b \<and> b \<le> 0xEF
      then (utf8_decoder_init
              \<lparr>lower_boundary := (if b = 0xE0 then 0xA0 else 0x80),
               upper_boundary := (if b = 0xED then 0x9F else 0xBF),
               bytes_needed := 2, code_point := b mod 16\<rparr>, [])
      else if 0xF0 \<le> b \<and> b \<le> 0xF4
      then (utf8_decoder_init
              \<lparr>lower_boundary := (if b = 0xF0 then 0x90 else 0x80),
               upper_boundary := (if b = 0xF4 then 0x8F else 0xBF),
               bytes_needed := 3, code_point := b mod 8\<rparr>, [])
      else (utf8_decoder_init, [0xFFFD]))"

definition utf8_handler :: "utf8_decoder \<Rightarrow> nat \<Rightarrow> utf8_decoder \<times> nat list" where
  "utf8_handler d b =
     (if bytes_needed d = 0 then utf8_lead b
      else if b < lower_boundary d \<or> upper_boundary d < b
      then (fst (utf8_lead b), 0xFFFD # snd (utf8_lead b))
      else if bytes_seen d + 1 \<noteq> bytes_needed d
      then (d\<lparr>lower_boundary := 0x80, upper_boundary := 0xBF,
               code_point := code_point d * 64 + b mod 64, bytes_seen := bytes_seen d + 1\<rparr>, [])
      else (utf8_decoder_init, [code_point d * 64 + b mod 64]))"

fun utf8_decode :: "utf8_decoder \<Rightarrow> nat list \<Rightarrow> nat list" where
  "utf8_decode d [] = (if bytes_needed d \<noteq> 0 then [0xFFFD] else [])"
| "utf8_decode d (b # bytes) = snd (utf8_handler d b) @ utf8_decode (fst (utf8_handler d b)) bytes"

definition utf16_units :: "nat \<Rightarrow> nat list" where
  "utf16_units c =
     (if c < 0x10000 then [c]
      else [0xD800 + (c - 0x10000) div 0x400, 0xDC00 + (c - 0x10000) mod 0x400])"

definition remove_BOM :: "nat list \<Rightarrow> nat list" where
  "remove_BOM bytes = (if take 3 bytes = [0xEF, 0xBB, 0xBF] then drop 3 bytes else bytes)"

definition TextDecoder_decode :: "Uint8Array \<Rightarrow> js_string" where
  "TextDecoder_decode input =
     map of_nat (concat (map utf16_units (utf8_decode utf8_decoder_init
                                            (remove_BOM (map unat input)))))"



subsection \<open>The functions of crypto.ts\<close>

record ('k, 'g) crypto =
  importKey :: "Uint8Array \<Rightarrow> js_error + 'k"
  encrypt :: "'k \<Rightarrow> Uint8Array \<Rightarrow> Uint8Array \<Rightarrow> js_error + Uint8Array"
  decrypt :: "'k \<Rightarrow> Uint8Array \<Rightarrow> Uint8Array \<Rightarrow> js_error + Uint8Array"
  getRandomValues :: "nat \<Rightarrow> 'g \<Rightarrow> Uint8Array \<times> 'g"

record sealed =
  iv :: js_string
  encryptedContent :: js_string

function hexToBytes_loop :: "js_string \<Rightarrow> nat \<Rightarrow> nat \<Rightarrow> Uint8Array" where
  "hexToBytes_loop cleanHex i n =
     (if i < n then ToUint8 (parseInt16 (substr cleanHex (i * 2) 2)) # hexToBytes_loop cleanHex (i + 1) n
      else [])"
  by pat_completeness auto
termination
  by (relation "measure (\<lambda>(cleanHex, i, n). n - i)") auto

declare hexToBytes_loop.simps [simp del]

definition hexToBytes :: "js_string \<Rightarrow> Uint8Array" where
  "hexToBytes hex =
     (let cleanHex = (if startsWith hex [0x30, 0x78] then slice hex 2 else hex)
      in hexToBytes_loop cleanHex 0 (length cleanHex div 2))"

definition bytesToBase64 :: "Uint8Array \<Rightarrow> js_error + js_string" where
  "bytesToBase64 bytes = btoa (map (\<lambda>b. of_nat (unat b)) bytes)"

definition base64ToBytes :: "js_string \<Rightarrow> js_error + Uint8Array" where
  "base64ToBytes base64 =
     (case atob base64 of
        Inl err \<Rightarrow> Inl err
      | Inr binary \<Rightarrow> Inr (map (\<lambda>u. of_nat (unat u)) binary))"

definition importAesKey :: "('k, 'g) crypto \<Rightarrow> js_string \<Rightarrow> js_error + 'k" where
  "importAesKey crypto keyHex = importKey crypto (hexToBytes keyHex)"

definition generateIv :: "('k, 'g) crypto \<Rightarrow> 'g \<Rightarrow> Uint8Array \<times> 'g" where
  "generateIv crypto g = getRandomValues crypto 12 g"

definition encryptContent ::
  "('k, 'g) crypto \<Rightarrow> 'g \<Rightarrow> js_string \<Rightarrow> js_string \<Rightarrow> (js_error + sealed) \<times> 'g" where
  "encryptContent crypto g content keyHex =
     (case importAesKey crypto keyHex of
        Inl err \<Rightarrow> (Inl err, g)
      | Inr cryptoKey \<Rightarrow>
          (let (ivBytes, g') = generateIv crypto g;
               contentBytes = TextEncoder_encode content
           in case encrypt crypto cryptoKey ivBytes contentBytes of
                Inl err \<Rightarrow> (Inl err, g')
              | Inr encryptedBytes \<Rightarrow>
                  (case bytesToBase64 ivBytes of
                     Inl err \<Rightarrow> (Inl err, g')
                   | Inr iv64 \<Rightarrow>
                       (case bytesToBase64 encryptedBytes of
                          Inl err \<Rightarrow> (Inl err, g')
                        | Inr encrypted64 \<Rightarrow>
                            (Inr \<lparr>iv = iv64, encryptedContent = encrypted64\<rparr>, g')))))"

definition decryptContent ::
  "('k, 'g) crypto \<Rightarrow> js_string \<Rightarrow> js_string \<Rightarrow> js_string \<Rightarrow> js_error + js_string" where
  "decryptContent crypto encryptedContent64 iv64 keyHex =
     (case importAesKey crypto keyHex of
        Inl err \<Rightarrow> Inl err
      | Inr cryptoKey \<Rightarrow>
          (case base64ToBytes iv64 of
             Inl err \<Rightarrow> Inl err
           | Inr ivBytes \<Rightarrow>
               (case base64ToBytes encryptedContent64 of
                  Inl err \<Rightarrow> Inl err
                | Inr encryptedBytes \<Rightarrow>
                    (case decrypt crypto cryptoKey ivBytes encryptedBytes of
                       Inl err \<Rightarrow> Inl err
                     | Inr decryptedBytes \<Rightarrow> Inr (TextDecoder_decode decryptedBytes)))))"

subsection \<open>A cipher, two keys and a plaintext used in the examples\<close>

text \<open>
  The example cipher stands in for AES-GCM where an example needs one: it accepts keys of
  128, 192 and 256 bits, shifts every byte by one and appends the key and the nonce as the
  tag, which it checks before it decrypts. \<open>greeting\<close> is the text Hi, a space, the euro
  sign and an emoji outside the basic plane (a surrogate pair).
\<close>

definition ascii :: "string \<Rightarrow> js_string" where
  "ascii s = map (\<lambda>c. of_nat (of_char c)) s"

definition demo_crypto :: "(Uint8Array, nat) crypto" where
  "demo_crypto =
     \<lparr>importKey = (\<lambda>keyData. if length keyData = 16 \<or> length keyData = 24 \<or> length keyData = 32
                               then Inr keyData else Inl (JsError ''DataError'')),
      encrypt = (\<lambda>key ivBytes data. Inr (map (\<lambda>b. b + 1) data @ key @ ivBytes)),
      decrypt = (\<lambda>key ivBytes data.
         if length (key @ ivBytes) \<le> length data
            \<and> drop (length data - length (key @ ivBytes)) data = key @ ivBytes
         then Inr (map (\<lambda>b. b - 1) (take (length data - length (key @ ivBytes)) data))
         else Inl (JsError ''OperationError'')),
      getRandomValues = (\<lambda>n g. (replicate n (of_nat g), g + 1))\<rparr>"

definition demo_key :: js_string where
  "demo_key = ascii ''0x0123456789abcdef0123456789abcdef0123456789abcdef0123456789abcdef''"



section \<open>Properties of the ledger and the vault\<close>

lemma checked_add_Inr:
  "checked_add a b = Inr c \<Longrightarrow> c = a + b \<and> unat c = unat a + unat b"
  by (auto simp: checked_add_def unat_word_ariths split: if_splits)

lemma checked_add_le:
  "checked_add a b = Inr c \<Longrightarrow> a \<le> c"
  by (auto simp: checked_add_def word_le_nat_alt unat_word_ariths split: if_splits)

lemma createOrExtendSubscription_Inr:
  assumes "createOrExtendSubscription e a d p s = Inr (s', evs)"
  shows "\<exists>t r. checked_add (if expirationTimestamps s a > block_timestamp e
                              then expirationTimestamps s a else block_timestamp e) d = Inr t
               \<and> checked_add (totalRevenue s) p = Inr r
               \<and> s' = s\<lparr>expirationTimestamps := (expirationTimestamps s)(a := t),
                         acl := insert (contentKey s, a) (acl s), totalRevenue := r\<rparr>"
  using assms
  by (auto simp: createOrExtendSubscription_def Let_def word_gt_0 split: if_splits sum.splits prod.splits)

lemma createOrExtendSubscription_expiration:
  assumes "createOrExtendSubscription e a d p s = Inr (s', evs)"
  shows "unat (expirationTimestamps s' a) =
           max (unat (expirationTimestamps s a)) (unat (block_timestamp e)) + unat d"
    and "\<And>b. b \<noteq> a \<Longrightarrow> expirationTimestamps s' b = expirationTimestamps s b"
    and "\<And>b. expirationTimestamps s b \<le> expirationTimestamps s' b"
proof -
  from createOrExtendSubscription_Inr [OF assms] obtain t r where
    t: "checked_add (if expirationTimestamps s a > block_timestamp e
                     then expirationTimestamps s a else block_timestamp e) d = Inr t"
    and s': "s' = s\<lparr>expirationTimestamps := (expirationTimestamps s)(a := t),
                    acl := insert (contentKey s, a) (acl s), totalRevenue := r\<rparr>"
    by blast
  from checked_add_Inr [OF t] show "unat (expirationTimestamps s' a) =
      max (unat (expirationTimestamps s a)) (unat (block_timestamp e)) + unat d"
    by (auto simp: s' max_def word_less_nat_alt)
  show "\<And>b. b \<noteq> a \<Longrightarrow> expirationTimestamps s' b = expirationTimestamps s b"
    by (simp add: s')
  have "expirationTimestamps s a \<le> t"
    using checked_add_le [OF t] by (auto split: if_splits)
  then show "\<And>b. expirationTimestamps s b \<le> expirationTimestamps s' b"
    by (simp add: s')
qed

lemma createOrExtendSubscription_frame:
  assumes "createOrExtendSubscription e a d p s = Inr (s', evs)"
  shows "contentKeySet s' = contentKeySet s \<and> contentKey s' = contentKey s \<and> owner s' = owner s
         \<and> subscriptionPrice s' = subscriptionPrice s
         \<and> subscriptionDuration s' = subscriptionDuration s \<and> balance s' = balance s
         \<and> unat (totalRevenue s') = unat (totalRevenue s) + unat p"
  using createOrExtendSubscription_Inr [OF assms] by (auto dest: checked_add_Inr)

lemma subscribe_Inr:
  assumes "subscribe e s = Inr out"
  shows "contentKeySet s \<and> subscriptionPrice s \<le> msg_value e \<and>
         (\<exists>s' evs. createOrExtendSubscription e (msg_sender e) (subscriptionDuration s) (msg_value e)
                      (s\<lparr>balance := balance s + msg_value e\<rparr>) = Inr (s', evs)
                  \<and> expirationTimestamps (post out) = expirationTimestamps s'
                  \<and> contentKeySet (post out) = contentKeySet s'
                  \<and> contentKey (post out) = contentKey s'
                  \<and> totalRevenue (post out) = totalRevenue s')"
  using assms
  by (auto simp: subscribe_def not_less split: if_splits sum.splits prod.splits)

lemma grantSubscription_Inr:
  assumes "grantSubscription e a d s = Inr out"
  shows "contentKeySet s \<and> owner s = msg_sender e \<and>
         (\<exists>evs. createOrExtendSubscription e a d 0 s = Inr (post out, evs))"
  using assms
  by (auto simp: grantSubscription_def split: if_splits sum.splits prod.splits)

lemma transact_expiration_mono:
  "expirationTimestamps s a \<le> expirationTimestamps (transact e c s) a"
proof (cases c)
  case Subscribe
  show ?thesis
  proof (cases "subscribe e s")
    case (Inl err)
    then show ?thesis by (simp add: Subscribe committed_def)
  next
    case (Inr out)
    from subscribe_Inr [OF Inr] obtain s' evs where
      c: "createOrExtendSubscription e (msg_sender e) (subscriptionDuration s) (msg_value e)
            (s\<lparr>balance := balance s + msg_value e\<rparr>) = Inr (s', evs)"
      and eq: "expirationTimestamps (post out) = expirationTimestamps s'"
      by blast
    from createOrExtendSubscription_expiration(3) [OF c, of a] show ?thesis
      by (simp add: Subscribe committed_def Inr eq)
  qed
next
  case (GrantSubscription b d)
  show ?thesis
  proof (cases "grantSubscription e b d s")
    case (Inl err)
    then show ?thesis by (simp add: GrantSubscription committed_def)
  next
    case (Inr out)
    from grantSubscription_Inr [OF Inr] obtain evs where
      c: "createOrExtendSubscription e b d 0 s = Inr (post out, evs)"
      by blast
    from createOrExtendSubscription_expiration(3) [OF c, of a] show ?thesis
      by (simp add: GrantSubscription committed_def Inr)
  qed
qed (auto simp: committed_def setContentKey_def updateSubscriptionParams_def withdraw_def
       transferOwnership_def renounceOwnership_def split: option.splits)

lemma run_expiration_mono:
  "expirationTimestamps s a \<le> expirationTimestamps (run txs s) a"
proof (induction txs arbitrary: s)
  case Nil
  show ?case by simp
next
  case (Cons tx txs)
  obtain e c where tx: "tx = (e, c)" by (cases tx)
  have "expirationTimestamps s a \<le> expirationTimestamps (transact e c s) a"
    by (rule transact_expiration_mono)
  also have "\<dots> \<le> expirationTimestamps (run txs (transact e c s)) a"
    by (rule Cons.IH)
  finally show ?case by (simp add: tx)
qed

lemma transact_key_kept:
  assumes "contentKeySet s"
  shows "contentKeySet (transact e c s) \<and> contentKey (transact e c s) = contentKey s"
proof (cases c)
  case Subscribe
  show ?thesis
  proof (cases "subscribe e s")
    case (Inl err)
    then show ?thesis using assms by (simp add: Subscribe committed_def)
  next
    case (Inr out)
    from subscribe_Inr [OF Inr] obtain s' evs where
      c: "createOrExtendSubscription e (msg_sender e) (subscriptionDuration s) (msg_value e)
            (s\<lparr>balance := balance s + msg_value e\<rparr>) = Inr (s', evs)"
      and eq: "contentKeySet (post out) = contentKeySet s'" "contentKey (post out) = contentKey s'"
      by blast
    from createOrExtendSubscription_frame [OF c] show ?thesis
      using assms by (simp add: Subscribe committed_def Inr eq)
  qed
next
  case (GrantSubscription b d)
  show ?thesis
  proof (cases "grantSubscription e b d s")
    case (Inl err)
    then show ?thesis using assms by (simp add: GrantSubscription committed_def)
  next
    case (Inr out)
    from grantSubscription_Inr [OF Inr] obtain evs where
      c: "createOrExtendSubscription e b d 0 s = Inr (post out, evs)"
      by blast
    from createOrExtendSubscription_frame [OF c] show ?thesis
      using assms by (simp add: GrantSubscription committed_def Inr)
  qed
qed (use assms in \<open>auto simp: committed_def setContentKey_def updateSubscriptionParams_def withdraw_def
       transferOwnership_def renounceOwnership_def split: option.splits\<close>)

lemma run_key_kept:
  "contentKeySet s \<Longrightarrow> contentKeySet (run txs s) \<and> contentKey (run txs s) = contentKey s"
proof (induction txs arbitrary: s)
  case Nil
  then show ?case by simp
next
  case (Cons tx txs)
  obtain e c where tx: "tx = (e, c)" by (cases tx)
  from transact_key_kept [OF Cons.prems, of e c] Cons.IH [of "transact e c s"]
  show ?case by (simp add: tx)
qed

lemma subscribe_empty_vault: "\<not> contentKeySet s \<Longrightarrow> subscribe e s = Inl ContentKeyNotSet"
  by (simp add: subscribe_def)

lemma grantSubscription_empty_vault:
  "\<not> contentKeySet s \<Longrightarrow>
   grantSubscription e a d s =
     Inl (if owner s = msg_sender e then ContentKeyNotSet
          else OwnableUnauthorizedAccount (msg_sender e))"
  by (simp add: grantSubscription_def)

lemma transact_empty_vault:
  assumes "\<not> contentKeySet s"
  shows "expirationTimestamps (transact e c s) = expirationTimestamps s"
    and "\<not> contentKeySet (transact e c s) \<Longrightarrow> contentKey (transact e c s) = contentKey s"
  using assms
  by (cases c; auto simp: committed_def subscribe_empty_vault grantSubscription_empty_vault
         setContentKey_def updateSubscriptionParams_def withdraw_def
         transferOwnership_def renounceOwnership_def split: option.splits)+

lemma run_empty_vault:
  "\<not> contentKeySet (run txs s) \<Longrightarrow>
   \<not> contentKeySet s \<and> expirationTimestamps (run txs s) = expirationTimestamps s
   \<and> contentKey (run txs s) = contentKey s"
proof (induction txs arbitrary: s)
  case Nil
  then show ?case by simp
next
  case (Cons tx txs)
  obtain e c where tx: "tx = (e, c)" by (cases tx)
  from Cons.prems have unset: "\<not> contentKeySet (run txs (transact e c s))"
    by (simp add: tx)
  from Cons.IH [OF unset] have
    mid: "\<not> contentKeySet (transact e c s)"
    and eqs: "expirationTimestamps (run txs (transact e c s)) = expirationTimestamps (transact e c s)"
      "contentKey (run txs (transact e c s)) = contentKey (transact e c s)"
    by simp_all
  have s: "\<not> contentKeySet s"
    using mid transact_key_kept [of s e c] by blast
  from transact_empty_vault [OF s, of e c] mid eqs show ?case
    by (simp add: tx s)
qed

lemmas example_defs = publisher_def alice_def tx_env_def deployed_def vaulted_def

lemma deployed_constructor:
  "constructor (tx_env publisher 0 500) ''Confidential Weekly'' 100 2592000 = Inr deployed"
  by (simp add: constructor_def example_defs)

lemma vaulted_setContentKey:
  "setContentKey (tx_env publisher 0 900) 77 [] deployed =
     Inr \<lparr>post = vaulted, events = [ContentKeySet publisher], transfers = []\<rparr>"
  by (simp add: setContentKey_def example_defs)

subsection \<open>Revenue and refund of a subscription payment\<close>

text \<open>
  What a successful \<open>subscribe\<close> does with the payment, for every state and payment: the
  payer gets back \<open>msg.value - subscriptionPrice\<close> when that is positive, and
  \<open>totalRevenue\<close> grows by \<open>msg.value\<close>, the whole amount sent, since \<open>subscribe\<close> passes
  \<open>msg.value\<close> as the \<open>_pricePaid\<close> of \<open>_createOrExtendSubscription\<close>.
\<close>

lemma subscribe_revenue_refund:
  assumes "subscribe e s = Inr out"
  shows "unat (totalRevenue (post out)) = unat (totalRevenue s) + unat (msg_value e)
         \<and> transfers out = (if subscriptionPrice s < msg_value e
                             then [(msg_sender e, msg_value e - subscriptionPrice s)] else [])"
proof -
  from assms obtain s' evs where
    c: "createOrExtendSubscription e (msg_sender e) (subscriptionDuration s) (msg_value e)
          (s\<lparr>balance := balance s + msg_value e\<rparr>) = Inr (s', evs)"
    by (auto simp: subscribe_def split: if_splits sum.splits)
  from createOrExtendSubscription_frame [OF c] have
    f: "subscriptionPrice s' = subscriptionPrice s"
       "unat (totalRevenue s') = unat (totalRevenue s) + unat (msg_value e)"
    by simp_all
  from assms c f show ?thesis
    by (auto simp: subscribe_def split: if_splits)
qed

text \<open>
  Claim C1: a successful \<open>subscribe\<close> with \<open>paidAmount \<ge> priceRequired\<close> increases the
  revenue counter by exactly \<open>priceRequired\<close> (not by \<open>paidAmount\<close>) and refunds exactly
  \<open>paidAmount - priceRequired\<close>. The code at the spec's own scenario (price 100, payment
  150 at time 1000, revenue 0 before): the refund is 50, the contract keeps 100, the
  subscription expires at 2593000, but \<open>totalRevenue\<close> becomes 150 where the claim says 100.
\<close>

theorem subscribe_overpayment_revenue:
  "map_sum id (\<lambda>out. (totalRevenue (post out), transfers out, balance (post out),
                       expirationTimestamps (post out) alice))
     (subscribe (tx_env alice 150 1000) vaulted)
   = Inr (150, [(alice, 50)], 100, 2593000)"
  by (simp add: subscribe_def createOrExtendSubscription_def checked_add_def example_defs)

subsection \<open>The renewal rule\<close>

text \<open>
  Claim C2: for every identity and every successful \<open>subscribe\<close> or \<open>grantSubscription\<close>
  call, the identity's new expiration timestamp is \<open>max(prior expiration, now) + duration\<close>
  (read as natural numbers: the checked addition has not overflowed), which is
  \<open>now + duration\<close> for a first-time record; no identity's expiration timestamp decreases
  in the call, nor in any sequence of transactions.
\<close>

theorem expiration_renewal_rule:
  assumes "subscribe e s = Inr out \<and> a = msg_sender e \<and> d = subscriptionDuration s
           \<or> grantSubscription e a d s = Inr out"
  shows "unat (expirationTimestamps (post out) a) =
           max (unat (expirationTimestamps s a)) (unat (block_timestamp e)) + unat d
         \<and> (expirationTimestamps s a = 0 \<longrightarrow>
              unat (expirationTimestamps (post out) a) = unat (block_timestamp e) + unat d)
         \<and> (\<forall>b. expirationTimestamps s b \<le> expirationTimestamps (post out) b)
         \<and> (\<forall>b. expirationTimestamps s b \<le> expirationTimestamps (run txs s) b)"
proof -
  have "\<exists>s0 p s' evs. createOrExtendSubscription e a d p s0 = Inr (s', evs)
          \<and> expirationTimestamps s0 = expirationTimestamps s
          \<and> expirationTimestamps s' = expirationTimestamps (post out)"
    using assms
  proof
    assume sub: "subscribe e s = Inr out \<and> a = msg_sender e \<and> d = subscriptionDuration s"
    with subscribe_Inr [of e s out] obtain s' evs where
      "createOrExtendSubscription e a d (msg_value e) (s\<lparr>balance := balance s + msg_value e\<rparr>)
         = Inr (s', evs)"
      "expirationTimestamps (post out) = expirationTimestamps s'"
      by blast
    moreover have "expirationTimestamps (s\<lparr>balance := balance s + msg_value e\<rparr>)
                     = expirationTimestamps s"
      by simp
    ultimately show ?thesis by metis
  next
    assume "grantSubscription e a d s = Inr out"
    from grantSubscription_Inr [OF this] show ?thesis by blast
  qed
  then obtain s0 p s' evs where
    c: "createOrExtendSubscription e a d p s0 = Inr (s', evs)"
    and s0: "expirationTimestamps s0 = expirationTimestamps s"
    and s': "expirationTimestamps s' = expirationTimestamps (post out)"
    by blast
  have rule: "unat (expirationTimestamps (post out) a) =
           max (unat (expirationTimestamps s a)) (unat (block_timestamp e)) + unat d"
    using createOrExtendSubscription_expiration(1) [OF c] by (simp add: s0 s')
  have mono: "\<forall>b. expirationTimestamps s b \<le> expirationTimestamps (post out) b"
    using createOrExtendSubscription_expiration(3) [OF c] by (simp add: s0 s')
  from rule mono show ?thesis
    by (simp add: run_expiration_mono)
qed

theorem expiration_renewal_rule_witness:
  "(\<exists>out. subscribe (tx_env alice 100 1000) vaulted = Inr out
       \<and> unat (expirationTimestamps (post out) alice) = max 0 1000 + 2592000
       \<and> expirationTimestamps vaulted alice \<le> expirationTimestamps (post out) alice)
   \<and> (\<exists>out. grantSubscription (tx_env publisher 0 1000) alice 60
               (vaulted\<lparr>expirationTimestamps := (expirationTimestamps vaulted)(alice := 5000)\<rparr>)
             = Inr out
          \<and> unat (expirationTimestamps (post out) alice) = max 5000 1000 + 60)"
proof -
  let ?renewing = "vaulted\<lparr>expirationTimestamps := (expirationTimestamps vaulted)(alice := 5000)\<rparr>"
  obtain out where h: "subscribe (tx_env alice 100 1000) vaulted = Inr out"
    by (simp add: subscribe_def createOrExtendSubscription_def checked_add_def example_defs)
  have a: "alice = msg_sender (tx_env alice 100 1000)"
    and d: "2592000 = subscriptionDuration vaulted"
    and z: "expirationTimestamps vaulted alice = 0"
    by (simp_all add: example_defs)
  from expiration_renewal_rule [of "tx_env alice 100 1000" vaulted out alice 2592000 "[]"] h a d
  have "unat (expirationTimestamps (post out) alice) =
          max (unat (expirationTimestamps vaulted alice)) (unat (block_timestamp (tx_env alice 100 1000)))
            + unat (2592000 :: uint256)"
    and "expirationTimestamps vaulted alice \<le> expirationTimestamps (post out) alice"
    by blast+
  with h z have first: "\<exists>out. subscribe (tx_env alice 100 1000) vaulted = Inr out
       \<and> unat (expirationTimestamps (post out) alice) = max 0 1000 + 2592000
       \<and> expirationTimestamps vaulted alice \<le> expirationTimestamps (post out) alice"
    by (simp add: tx_env_def)
  obtain out' where h': "grantSubscription (tx_env publisher 0 1000) alice 60 ?renewing = Inr out'"
    by (simp add: grantSubscription_def createOrExtendSubscription_def checked_add_def example_defs)
  have x: "expirationTimestamps ?renewing alice = 5000"
    by simp
  from expiration_renewal_rule [of "tx_env publisher 0 1000" ?renewing out' alice 60 "[]"] h'
  have "unat (expirationTimestamps (post out') alice) =
          max (unat (expirationTimestamps ?renewing alice)) (unat (block_timestamp (tx_env publisher 0 1000)))
            + unat (60 :: uint256)"
    by blast
  with h' x have "\<exists>out. grantSubscription (tx_env publisher 0 1000) alice 60 ?renewing = Inr out
          \<and> unat (expirationTimestamps (post out) alice) = max 5000 1000 + 60"
    by (simp add: tx_env_def)
  with first show ?thesis by blast
qed

subsection \<open>Reading the key while the vault is empty\<close>

text \<open>
  \<open>getContentKey\<close> does not read \<open>contentKeySet\<close>. On the freshly deployed contract the
  owner's call returns the default handle 0 instead of failing with \<open>ContentKeyNotSet\<close>.
\<close>

theorem getContentKey_empty_vault_counterexample:
  "\<not> contentKeySet deployed
   \<and> getContentKey (tx_env publisher 0 1000) deployed = Inr 0
   \<and> getContentKey (tx_env publisher 0 1000) deployed \<noteq> Inl ContentKeyNotSet"
  by (simp add: getContentKey_def isSubscriptionValid_def example_defs)

text \<open>
  Claim C3, amended: as long as the content key has never been set (in every state reached
  from the constructor by any transactions in which \<open>contentKeySet\<close> is still false),
  \<open>getContentKey\<close> never fails with \<open>ContentKeyNotSet\<close>: it returns the unset handle 0 to
  the owner and fails with \<open>NoValidSubscription\<close> for every other caller.
\<close>

theorem getContentKey_empty_vault:
  assumes "constructor e0 nm price duration = Inr s0" and "\<not> contentKeySet (run txs s0)"
  shows "getContentKey e (run txs s0) =
           (if msg_sender e = owner (run txs s0) then Inr 0 else Inl NoValidSubscription)"
proof -
  from assms(1) have init: "contentKey s0 = 0" "expirationTimestamps s0 = (\<lambda>_. 0)"
    by (auto simp: constructor_def split: if_splits)
  from run_empty_vault [OF assms(2)] init have
    "contentKey (run txs s0) = 0" "expirationTimestamps (run txs s0) = (\<lambda>_. 0)"
    by simp_all
  then show ?thesis
    by (simp add: getContentKey_def isSubscriptionValid_def)
qed

theorem getContentKey_empty_vault_witness:
  "constructor (tx_env publisher 0 500) ''Confidential Weekly'' 100 2592000 = Inr deployed
   \<and> \<not> contentKeySet (run [(tx_env alice 100 1000, Subscribe)] deployed)
   \<and> getContentKey (tx_env alice 0 2000) (run [(tx_env alice 100 1000, Subscribe)] deployed)
       = Inl NoValidSubscription
   \<and> getContentKey (tx_env publisher 0 2000) (run [(tx_env alice 100 1000, Subscribe)] deployed)
       = Inr 0"
proof -
  have u: "\<not> contentKeySet (run [(tx_env alice 100 1000, Subscribe)] deployed)"
    by (simp add: committed_def subscribe_def deployed_def)
  have o: "msg_sender (tx_env alice 0 2000) \<noteq> owner (run [(tx_env alice 100 1000, Subscribe)] deployed)"
    "msg_sender (tx_env publisher 0 2000) = owner (run [(tx_env alice 100 1000, Subscribe)] deployed)"
    by (simp_all add: committed_def subscribe_def example_defs)
  from getContentKey_empty_vault [OF deployed_constructor u, of "tx_env alice 0 2000"]
       getContentKey_empty_vault [OF deployed_constructor u, of "tx_env publisher 0 2000"]
       deployed_constructor u o
  show ?thesis
    by presburger
qed

subsection \<open>The key is written once\<close>

text \<open>
  \<open>onlyOwner\<close> runs before the body of \<open>setContentKey\<close>: after the publisher has set the
  key, a second call by somebody else fails with \<open>OwnableUnauthorizedAccount\<close>, not with
  \<open>ContentKeyAlreadySet\<close>.
\<close>

theorem setContentKey_any_caller_counterexample:
  "setContentKey (tx_env publisher 0 900) 77 [] deployed =
     Inr \<lparr>post = vaulted, events = [ContentKeySet publisher], transfers = []\<rparr>
   \<and> setContentKey (tx_env alice 0 1000) 88 [] vaulted = Inl (OwnableUnauthorizedAccount alice)
   \<and> setContentKey (tx_env alice 0 1000) 88 [] vaulted \<noteq> Inl ContentKeyAlreadySet"
  by (simp add: setContentKey_def example_defs)

text \<open>
  Claim C4, amended: after one successful \<open>setContentKey\<close>, and whatever transactions
  follow it, every later \<open>setContentKey\<close> call fails, with \<open>ContentKeyAlreadySet\<close> when the
  caller is the owner and with \<open>OwnableUnauthorizedAccount\<close> otherwise, whatever its
  arguments; the stored key handle and the \<open>contentKeySet\<close> flag keep the values of the
  first successful call, and the failed call leaves the whole storage as it was.
\<close>

theorem setContentKey_once:
  assumes "setContentKey e k p s = Inr out" and "s1 = run txs (post out)"
  shows "contentKeySet s1 \<and> contentKey s1 = contentKey (post out)
         \<and> setContentKey e' k' p' s1 =
             Inl (if owner s1 = msg_sender e' then ContentKeyAlreadySet
                  else OwnableUnauthorizedAccount (msg_sender e'))
         \<and> transact e' (SetContentKey k' p') s1 = s1"
proof -
  from assms(1) have "contentKeySet (post out)"
    by (auto simp: setContentKey_def split: if_splits option.splits)
  from run_key_kept [OF this, of txs] have
    k: "contentKeySet s1" "contentKey s1 = contentKey (post out)"
    by (simp_all add: assms(2))
  then show ?thesis
    by (simp add: setContentKey_def committed_def)
qed

theorem setContentKey_once_witness:
  "setContentKey (tx_env publisher 0 900) 77 [] deployed =
     Inr \<lparr>post = vaulted, events = [ContentKeySet publisher], transfers = []\<rparr>
   \<and> contentKeySet vaulted \<and> contentKey vaulted = 77
   \<and> setContentKey (tx_env publisher 0 1000) 88 [] vaulted = Inl ContentKeyAlreadySet
   \<and> transact (tx_env publisher 0 1000) (SetContentKey 88 []) vaulted = vaulted"
proof -
  have r: "vaulted = run [] (post \<lparr>post = vaulted, events = [ContentKeySet publisher], transfers = []\<rparr>)"
    by simp
  have o: "owner vaulted = msg_sender (tx_env publisher 0 1000)"
    by (simp add: example_defs)
  have k: "contentKey vaulted = 77"
    by (simp add: vaulted_def)
  from setContentKey_once [OF vaulted_setContentKey r, of "tx_env publisher 0 1000" 88 "[]"]
  have "contentKeySet vaulted"
    and "setContentKey (tx_env publisher 0 1000) 88 [] vaulted =
           Inl (if owner vaulted = msg_sender (tx_env publisher 0 1000) then ContentKeyAlreadySet
                else OwnableUnauthorizedAccount (msg_sender (tx_env publisher 0 1000)))"
    and "transact (tx_env publisher 0 1000) (SetContentKey 88 []) vaulted = vaulted"
    by blast+
  with vaulted_setContentKey o k show ?thesis
    by presburger
qed

subsection \<open>Who may read the key\<close>

text \<open>
  Claim C5: \<open>getContentKey\<close> succeeds for the owner in every state, also when the owner
  never subscribed; for every other caller it fails with \<open>NoValidSubscription\<close> exactly
  when the caller's expiration timestamp is \<open>\<le> now\<close>, and succeeds when the caller's
  expiration timestamp is \<open>> now\<close>, in particular right after the caller's successful
  \<open>subscribe\<close> (the duration being positive).
\<close>

theorem getContentKey_access:
  "(msg_sender e = owner s \<longrightarrow> getContentKey e s = Inr (contentKey s))
   \<and> (msg_sender e \<noteq> owner s \<longrightarrow>
        (getContentKey e s = Inl NoValidSubscription)
          = (expirationTimestamps s (msg_sender e) \<le> block_timestamp e))
   \<and> (msg_sender e \<noteq> owner s \<longrightarrow> block_timestamp e < expirationTimestamps s (msg_sender e) \<longrightarrow>
        getContentKey e s = Inr (contentKey s))
   \<and> (subscribe e s = Inr out \<longrightarrow> subscriptionDuration s \<noteq> 0 \<longrightarrow>
        getContentKey e (post out) = Inr (contentKey s))"
proof -
  have "getContentKey e (post out) = Inr (contentKey s)"
    if sub: "subscribe e s = Inr out" and d: "subscriptionDuration s \<noteq> 0"
  proof -
    from subscribe_Inr [OF sub] obtain s' evs where
      c: "createOrExtendSubscription e (msg_sender e) (subscriptionDuration s) (msg_value e)
            (s\<lparr>balance := balance s + msg_value e\<rparr>) = Inr (s', evs)"
      and eq: "expirationTimestamps (post out) = expirationTimestamps s'"
        "contentKey (post out) = contentKey s'"
      by blast
    from d have "0 < unat (subscriptionDuration s)"
      by (simp add: unat_gt_0)
    with createOrExtendSubscription_expiration(1) [OF c]
    have "unat (block_timestamp e) < unat (expirationTimestamps s' (msg_sender e))"
      by simp
    then have "block_timestamp e < expirationTimestamps (post out) (msg_sender e)"
      by (simp add: eq word_less_nat_alt)
    moreover from createOrExtendSubscription_frame [OF c]
    have "contentKey (post out) = contentKey s"
      by (simp add: eq)
    ultimately show ?thesis
      by (simp add: getContentKey_def isSubscriptionValid_def)
  qed
  then show ?thesis
    by (auto simp: getContentKey_def isSubscriptionValid_def not_less)
qed

theorem getContentKey_access_witness:
  "getContentKey (tx_env publisher 0 1000) deployed = Inr (contentKey deployed)
   \<and> getContentKey (tx_env alice 0 1000) vaulted = Inl NoValidSubscription
   \<and> getContentKey (tx_env alice 0 1000)
        (vaulted\<lparr>expirationTimestamps := (expirationTimestamps vaulted)(alice := 1001)\<rparr>) = Inr 77
   \<and> (\<exists>out. subscribe (tx_env alice 100 1000) vaulted = Inr out
          \<and> getContentKey (tx_env alice 100 1000) (post out) = Inr 77)"
proof -
  let ?live = "vaulted\<lparr>expirationTimestamps := (expirationTimestamps vaulted)(alice := 1001)\<rparr>"
  have o: "msg_sender (tx_env publisher 0 1000) = owner deployed"
    and n: "msg_sender (tx_env alice 0 1000) \<noteq> owner vaulted"
    and x: "expirationTimestamps vaulted (msg_sender (tx_env alice 0 1000))
              \<le> block_timestamp (tx_env alice 0 1000)"
    and n': "msg_sender (tx_env alice 0 1000) \<noteq> owner ?live"
    and l: "block_timestamp (tx_env alice 0 1000)
              < expirationTimestamps ?live (msg_sender (tx_env alice 0 1000))"
    and k: "contentKey ?live = 77" "contentKey vaulted = 77"
    and d: "subscriptionDuration vaulted \<noteq> 0"
    by (simp_all add: example_defs)
  obtain out where h: "subscribe (tx_env alice 100 1000) vaulted = Inr out"
    by (simp add: subscribe_def createOrExtendSubscription_def checked_add_def example_defs)
  from getContentKey_access [of "tx_env publisher 0 1000" deployed] o
  have 1: "getContentKey (tx_env publisher 0 1000) deployed = Inr (contentKey deployed)"
    by blast
  from getContentKey_access [of "tx_env alice 0 1000" vaulted] n x
  have 2: "getContentKey (tx_env alice 0 1000) vaulted = Inl NoValidSubscription"
    by blast
  from getContentKey_access [of "tx_env alice 0 1000" ?live] n' l k
  have 3: "getContentKey (tx_env alice 0 1000) ?live = Inr 77"
    by metis
  from getContentKey_access [of "tx_env alice 100 1000" vaulted out] h d k
  have 4: "getContentKey (tx_env alice 100 1000) (post out) = Inr 77"
    by metis
  from 1 2 3 4 h show ?thesis by blast
qed

subsection \<open>Insufficient payment\<close>

text \<open>
  \<open>subscribe\<close> checks \<open>contentKeySet\<close> before the payment: an underpaid call on a contract
  whose key is not set fails with \<open>ContentKeyNotSet\<close>, not with \<open>InsufficientPayment\<close>.
\<close>

theorem subscribe_underpaid_counterexample:
  "msg_value (tx_env alice 50 1000) < subscriptionPrice deployed
   \<and> subscribe (tx_env alice 50 1000) deployed = Inl ContentKeyNotSet
   \<and> subscribe (tx_env alice 50 1000) deployed \<noteq> Inl (InsufficientPayment 100 50)"
  by (simp add: subscribe_def example_defs)

text \<open>
  Claim C6, amended: every \<open>subscribe\<close> call with \<open>msg.value < subscriptionPrice\<close> fails,
  with \<open>InsufficientPayment(subscriptionPrice, msg.value)\<close> when the content key has been
  set and with \<open>ContentKeyNotSet\<close> when it has not, and the storage (expiration records,
  revenue, access control list) is the same before and after the failed call.
\<close>

theorem subscribe_underpaid:
  assumes "msg_value e < subscriptionPrice s"
  shows "subscribe e s =
           Inl (if contentKeySet s then InsufficientPayment (subscriptionPrice s) (msg_value e)
                else ContentKeyNotSet)
         \<and> transact e Subscribe s = s"
  using assms by (simp add: subscribe_def committed_def)

theorem subscribe_underpaid_witness:
  "msg_value (tx_env alice 50 1000) < subscriptionPrice vaulted
   \<and> subscribe (tx_env alice 50 1000) vaulted = Inl (InsufficientPayment 100 50)
   \<and> transact (tx_env alice 50 1000) Subscribe vaulted = vaulted"
proof -
  have h: "msg_value (tx_env alice 50 1000) < subscriptionPrice vaulted"
    and v: "contentKeySet vaulted" "subscriptionPrice vaulted = 100"
      "msg_value (tx_env alice 50 1000) = 50"
    by (simp_all add: example_defs)
  from subscribe_underpaid [OF h]
  have "subscribe (tx_env alice 50 1000) vaulted = Inl (InsufficientPayment 100 50)"
    and "transact (tx_env alice 50 1000) Subscribe vaulted = vaulted"
    by (simp_all only: v if_True)
  with h show ?thesis by blast
qed

subsection \<open>Updating the subscription parameters\<close>

text \<open>
  Claim C7: \<open>updateSubscriptionParams\<close>, an operation of the owner, fails with
  \<open>InvalidDuration\<close> exactly when \<open>_newDuration = 0\<close>; a successful call changes only the
  stored price and duration, which later \<open>subscribe\<close> calls read, and leaves every
  expiration timestamp as it was. (The \<open>onlyOwner\<close> modifier turns away every other caller
  with \<open>OwnableUnauthorizedAccount\<close> before the duration is looked at.)
\<close>

theorem updateSubscriptionParams_effect:
  "(msg_sender e = owner s \<longrightarrow>
      (updateSubscriptionParams e newPrice newDuration s = Inl InvalidDuration) = (newDuration = 0))
   \<and> (msg_sender e \<noteq> owner s \<longrightarrow>
        updateSubscriptionParams e newPrice newDuration s
          = Inl (OwnableUnauthorizedAccount (msg_sender e)))
   \<and> (updateSubscriptionParams e newPrice newDuration s = Inr out \<longrightarrow>
        post out = s\<lparr>subscriptionPrice := newPrice, subscriptionDuration := newDuration\<rparr>
        \<and> expirationTimestamps (post out) = expirationTimestamps s)"
  by (auto simp: updateSubscriptionParams_def)

theorem updateSubscriptionParams_effect_witness:
  "updateSubscriptionParams (tx_env publisher 0 1000) 5 0 vaulted = Inl InvalidDuration
   \<and> updateSubscriptionParams (tx_env alice 0 1000) 5 60 vaulted
       = Inl (OwnableUnauthorizedAccount alice)
   \<and> (\<exists>out. updateSubscriptionParams (tx_env publisher 0 1000) 5 60 vaulted = Inr out
          \<and> post out = vaulted\<lparr>subscriptionPrice := 5, subscriptionDuration := 60\<rparr>
          \<and> expirationTimestamps (post out) = expirationTimestamps vaulted)"
proof -
  have o: "msg_sender (tx_env publisher 0 1000) = owner vaulted"
    and n: "msg_sender (tx_env alice 0 1000) \<noteq> owner vaulted"
    and a: "msg_sender (tx_env alice 0 1000) = alice"
    by (simp_all add: example_defs)
  obtain out where h: "updateSubscriptionParams (tx_env publisher 0 1000) 5 60 vaulted = Inr out"
    by (simp add: updateSubscriptionParams_def example_defs)
  from updateSubscriptionParams_effect [of "tx_env publisher 0 1000" vaulted 5 0] o
  have 1: "updateSubscriptionParams (tx_env publisher 0 1000) 5 0 vaulted = Inl InvalidDuration"
    by blast
  from updateSubscriptionParams_effect [of "tx_env alice 0 1000" vaulted 5 60] n a
  have 2: "updateSubscriptionParams (tx_env alice 0 1000) 5 60 vaulted
             = Inl (OwnableUnauthorizedAccount alice)"
    by metis
  from updateSubscriptionParams_effect [of "tx_env publisher 0 1000" vaulted 5 60 out] h
  have 3: "post out = vaulted\<lparr>subscriptionPrice := 5, subscriptionDuration := 60\<rparr>
           \<and> expirationTimestamps (post out) = expirationTimestamps vaulted"
    by blast
  from 1 2 3 h show ?thesis by blast
qed

subsection \<open>No subscription while the vault is empty\<close>

text \<open>
  Claim C10: while the content key is not set, every \<open>subscribe\<close> call and every
  \<open>grantSubscription\<close> call of the owner fails with \<open>ContentKeyNotSet\<close>, before any payment
  or expiration processing (\<open>grantSubscription\<close> is an operation of the owner: the
  \<open>onlyOwner\<close> modifier turns away every other caller with \<open>OwnableUnauthorizedAccount\<close>);
  so no transaction, and no sequence of transactions after which the key is still unset,
  creates or extends a subscription record.
\<close>

theorem empty_vault_blocks_subscriptions:
  assumes "\<not> contentKeySet s"
  shows "subscribe e s = Inl ContentKeyNotSet
         \<and> grantSubscription e a d s =
             Inl (if owner s = msg_sender e then ContentKeyNotSet
                  else OwnableUnauthorizedAccount (msg_sender e))
         \<and> expirationTimestamps (transact e c s) = expirationTimestamps s
         \<and> (\<not> contentKeySet (run txs s) \<longrightarrow>
              expirationTimestamps (run txs s) = expirationTimestamps s)"
  using assms subscribe_empty_vault grantSubscription_empty_vault
    transact_empty_vault(1) run_empty_vault
  by presburger

theorem empty_vault_blocks_subscriptions_witness:
  "\<not> contentKeySet deployed
   \<and> subscribe (tx_env alice 100 1000) deployed = Inl ContentKeyNotSet
   \<and> grantSubscription (tx_env publisher 0 1000) alice 100 deployed = Inl ContentKeyNotSet
   \<and> expirationTimestamps (transact (tx_env alice 100 1000) Subscribe deployed) alice = 0"
proof -
  have u: "\<not> contentKeySet deployed"
    and o: "owner deployed = msg_sender (tx_env publisher 0 1000)"
    and z: "expirationTimestamps deployed alice = 0"
    by (simp_all add: example_defs)
  from empty_vault_blocks_subscriptions [OF u, of "tx_env alice 100 1000" alice 100 Subscribe "[]"]
  have 1: "subscribe (tx_env alice 100 1000) deployed = Inl ContentKeyNotSet"
    and 3: "expirationTimestamps (transact (tx_env alice 100 1000) Subscribe deployed)
              = expirationTimestamps deployed"
    by blast+
  from empty_vault_blocks_subscriptions [OF u, of "tx_env publisher 0 1000" alice 100 Subscribe "[]"] o
  have 2: "grantSubscription (tx_env publisher 0 1000) alice 100 deployed = Inl ContentKeyNotSet"
    by presburger
  from u 1 2 3 z show ?thesis by presburger
qed

section \<open>Properties of the decryption handshake\<close>

text \<open>
  Claim C9: every decryption request (of an initialised client, through either function)
  draws one new key pair from the SDK's generator, composes the authorization statement for
  that key pair's public key with the issue timestamp \<open>floor(Date.now() / 1000)\<close>, the
  current time when the request is created, and the fixed validity window of \<open>10\<close> days.
  The statement the SDK returns is then signed: the call of \<open>signTypedData\<close> on it is the
  third interaction of the request. Once the signer has signed and given its address, the
  request is submitted: the fourth and last interaction is \<open>userDecrypt\<close> with the same key
  pair, the signature, the same timestamp and the same 10 days. Nothing else is ever signed
  or submitted.
\<close>

theorem decryption_request_statement:
  assumes "fheInstance = Some relayer"
    and "log = fst (snd (requestUserDecryption fheInstance Date_now g contractAddress signer handle))
           \<and> g' = snd (snd (requestUserDecryption fheInstance Date_now g contractAddress signer handle))
         \<or> log = fst (snd (decryptValue Number fheInstance Date_now g handle contractAddress signer))
           \<and> g' = snd (snd (decryptValue Number fheInstance Date_now g handle contractAddress signer))"
  shows "\<exists>kp. generateKeypair relayer g = (kp, g')
         \<and> take 2 log =
              [GenerateKeypair kp,
               CreateEIP712 (publicKey kp) [contractAddress] (toString (Date_now div 1000)) ''10'']
         \<and> length (filter (\<lambda>i. \<exists>k. i = GenerateKeypair k) log) = 1
         \<and> (\<forall>st. createEIP712 relayer (publicKey kp) [contractAddress]
                    (toString (Date_now div 1000)) ''10'' = Inr st \<longrightarrow>
               take 3 log =
                 [GenerateKeypair kp,
                  CreateEIP712 (publicKey kp) [contractAddress] (toString (Date_now div 1000)) ''10'',
                  SignTypedData (domain st) (types_UserDecryptRequestVerification st) (message st)]
               \<and> (\<forall>signature userAddress.
                     signTypedData signer (domain st) (types_UserDecryptRequestVerification st)
                       (message st) = Inr signature \<longrightarrow>
                     getAddress signer = Inr userAddress \<longrightarrow>
                     log =
                       [GenerateKeypair kp,
                        CreateEIP712 (publicKey kp) [contractAddress]
                          (toString (Date_now div 1000)) ''10'',
                        SignTypedData (domain st) (types_UserDecryptRequestVerification st)
                          (message st),
                        UserDecrypt
                          \<lparr>handleContractPairs = [(handle, contractAddress)],
                           arg_privateKey = privateKey kp,
                           arg_publicKey = publicKey kp,
                           arg_signature = replace signature ''0x'' [],
                           arg_contractAddresses = [contractAddress],
                           arg_userAddress = userAddress,
                           arg_startTimeStamp = toString (Date_now div 1000),
                           arg_durationDays = ''10''\<rparr>]))
         \<and> (\<forall>d t m. SignTypedData d t m \<in> set log \<longrightarrow>
               createEIP712 relayer (publicKey kp) [contractAddress]
                 (toString (Date_now div 1000)) ''10''
               = Inr \<lparr>domain = d, types_UserDecryptRequestVerification = t, message = m\<rparr>)
         \<and> (\<forall>args. UserDecrypt args \<in> set log \<longrightarrow>
               (\<exists>d t m. SignTypedData d t m \<in> set log)
               \<and> arg_startTimeStamp args = toString (Date_now div 1000)
               \<and> arg_durationDays args = ''10''
               \<and> arg_publicKey args = publicKey kp \<and> arg_privateKey args = privateKey kp)"
  using assms
  by (auto simp: requestUserDecryption_def decryptValue_def Let_def
           split: prod.splits sum.splits)

theorem decryption_request_statement_witness:
  "fst (snd (requestUserDecryption (Some demo_relayer) 1762166400123 7
               ''0xC0FFEE'' demo_signer ''0xbeef''))
     = [GenerateKeypair \<lparr>publicKey = ''pk7'', privateKey = ''sk7''\<rparr>,
        CreateEIP712 ''pk7'' [''0xC0FFEE''] ''1762166400'' ''10'',
        SignTypedData ''Decryption'' ''UserDecryptRequestVerification''
          ''pk7,0xC0FFEE,1762166400,10'',
        UserDecrypt
          \<lparr>handleContractPairs = [(''0xbeef'', ''0xC0FFEE'')],
           arg_privateKey = ''sk7'', arg_publicKey = ''pk7'',
           arg_signature = ''pk7,0xC0FFEE,1762166400,10'',
           arg_contractAddresses = [''0xC0FFEE''], arg_userAddress = ''0xA11CE'',
           arg_startTimeStamp = ''1762166400'', arg_durationDays = ''10''\<rparr>]
   \<and> fst (snd (decryptValue (\<lambda>v. v) (Some demo_relayer) 1762166400123 7
                  ''0xbeef'' ''0xC0FFEE'' demo_signer))
     = [GenerateKeypair \<lparr>publicKey = ''pk7'', privateKey = ''sk7''\<rparr>,
        CreateEIP712 ''pk7'' [''0xC0FFEE''] ''1762166400'' ''10'',
        SignTypedData ''Decryption'' ''UserDecryptRequestVerification''
          ''pk7,0xC0FFEE,1762166400,10'',
        UserDecrypt
          \<lparr>handleContractPairs = [(''0xbeef'', ''0xC0FFEE'')],
           arg_privateKey = ''sk7'', arg_publicKey = ''pk7'',
           arg_signature = ''pk7,0xC0FFEE,1762166400,10'',
           arg_contractAddresses = [''0xC0FFEE''], arg_userAddress = ''0xA11CE'',
           arg_startTimeStamp = ''1762166400'', arg_durationDays = ''10''\<rparr>]
   \<and> generateKeypair demo_relayer 7 = (\<lparr>publicKey = ''pk7'', privateKey = ''sk7''\<rparr>, 8)"
proof -
  let ?req = "requestUserDecryption (Some demo_relayer) 1762166400123 7
                ''0xC0FFEE'' demo_signer ''0xbeef''"
  let ?dec = "decryptValue (\<lambda>v. v) (Some demo_relayer) 1762166400123 7
                ''0xbeef'' ''0xC0FFEE'' demo_signer"
  let ?st = "\<lparr>domain = ''Decryption'',
              types_UserDecryptRequestVerification = ''UserDecryptRequestVerification'',
              message = ''pk7,0xC0FFEE,1762166400,10''\<rparr>"
  have ts: "toString (1762166400123 div 1000) = ''1762166400''"
    by (simp add: toString.simps digit_def)
  have kp: "generateKeypair demo_relayer 7 = (\<lparr>publicKey = ''pk7'', privateKey = ''sk7''\<rparr>, 8)"
    by (simp add: demo_relayer_def toString.simps digit_def)
  have st: "createEIP712 demo_relayer ''pk7'' [''0xC0FFEE''] ''1762166400'' ''10'' = Inr ?st"
    by (simp add: demo_relayer_def)
  have sg: "signTypedData demo_signer (domain ?st) (types_UserDecryptRequestVerification ?st)
              (message ?st) = Inr ''0xpk7,0xC0FFEE,1762166400,10''"
    and ad: "getAddress demo_signer = Inr ''0xA11CE''"
    and rp: "replace ''0xpk7,0xC0FFEE,1762166400,10'' ''0x'' [] = ''pk7,0xC0FFEE,1762166400,10''"
    by (simp_all add: demo_signer_def)
  have "fst (snd out) =
          [GenerateKeypair \<lparr>publicKey = ''pk7'', privateKey = ''sk7''\<rparr>,
           CreateEIP712 ''pk7'' [''0xC0FFEE''] ''1762166400'' ''10'',
           SignTypedData ''Decryption'' ''UserDecryptRequestVerification''
             ''pk7,0xC0FFEE,1762166400,10'',
           UserDecrypt
             \<lparr>handleContractPairs = [(''0xbeef'', ''0xC0FFEE'')],
              arg_privateKey = ''sk7'', arg_publicKey = ''pk7'',
              arg_signature = ''pk7,0xC0FFEE,1762166400,10'',
              arg_contractAddresses = [''0xC0FFEE''], arg_userAddress = ''0xA11CE'',
              arg_startTimeStamp = ''1762166400'', arg_durationDays = ''10''\<rparr>]"
    if "out = ?req \<or> out = ?dec" for out :: "(js_error + nat option) \<times> interaction list \<times> nat"
  proof -
    from that have
      "fst (snd out) = fst (snd ?req) \<and> snd (snd out) = snd (snd ?req)
       \<or> fst (snd out) = fst (snd ?dec) \<and> snd (snd out) = snd (snd ?dec)"
      by auto
    from decryption_request_statement [OF refl this] obtain kp' where
      k: "generateKeypair demo_relayer 7 = (kp', snd (snd out))"
      and full: "\<forall>st. createEIP712 demo_relayer (publicKey kp') [''0xC0FFEE'']
                    (toString (1762166400123 div 1000)) ''10'' = Inr st \<longrightarrow>
               (\<forall>signature userAddress.
                     signTypedData demo_signer (domain st) (types_UserDecryptRequestVerification st)
                       (message st) = Inr signature \<longrightarrow>
                     getAddress demo_signer = Inr userAddress \<longrightarrow>
                     fst (snd out) =
                       [GenerateKeypair kp',
                        CreateEIP712 (publicKey kp') [''0xC0FFEE'']
                          (toString (1762166400123 div 1000)) ''10'',
                        SignTypedData (domain st) (types_UserDecryptRequestVerification st)
                          (message st),
                        UserDecrypt
                          \<lparr>handleContractPairs = [(''0xbeef'', ''0xC0FFEE'')],
                           arg_privateKey = privateKey kp',
                           arg_publicKey = publicKey kp',
                           arg_signature = replace signature ''0x'' [],
                           arg_contractAddresses = [''0xC0FFEE''],
                           arg_userAddress = userAddress,
                           arg_startTimeStamp = toString (1762166400123 div 1000),
                           arg_durationDays = ''10''\<rparr>])"
      by blast
    from k kp have kp': "kp' = \<lparr>publicKey = ''pk7'', privateKey = ''sk7''\<rparr>"
      by simp
    from full [rule_format, of ?st "''0xpk7,0xC0FFEE,1762166400,10''" "''0xA11CE''"]
      st sg ad
    show ?thesis
      by (simp only: kp' ts rp keypair.simps eip712.simps)
  qed
  from this [of ?req] this [of ?dec] kp show ?thesis
    by blast
qed

section \<open>Properties of the envelope codec\<close>

subsection \<open>Base64: what btoa wrote, atob reads back\<close>



















lemma unat_byte_less: "unat (b :: 8 word) < 256"
  using unsigned_less [of b, where 'a = nat] by simp

lemma unat_char_code: "unat (of_nat (unat (b :: 8 word)) :: 16 word) = unat b"
proof -
  have "unat (of_nat (unat b) :: 16 word) = unat b mod 2 ^ LENGTH(16)"
    by (simp only: unat_of_nat)
  with unat_byte_less [of b] show ?thesis by simp
qed


lemma bytesToBase64_Inr:
  "bytesToBase64 bytes = Inr (map of_nat (base64_encode (map unat bytes)))"
proof -
  have "(of_nat (unat b) :: 16 word) \<le> 0xFF" for b :: "8 word"
    using unat_byte_less [of b] unat_char_code [of b] by (simp only: word_le_nat_alt) simp
  then have "list_all (\<lambda>u. u \<le> 0xFF) (map (\<lambda>b. of_nat (unat b) :: 16 word) bytes)"
    by (simp only: list_all_iff) auto
  moreover have "map unat (map (\<lambda>b. of_nat (unat b) :: 16 word) bytes) = map unat bytes"
    by (simp only: map_map o_def unat_char_code)
  ultimately show ?thesis
    by (simp only: bytesToBase64_def btoa_def if_True)
qed



subsection \<open>UTF-8: what the encoder wrote, the decoder reads back\<close>



















subsection \<open>Sealing and opening\<close>

lemma ascii_0x: "ascii ''0x'' = [0x30, 0x78]"
  by (simp add: ascii_def)

lemma demo_key_bytes:
  "hexToBytes demo_key =
     [0x01, 0x23, 0x45, 0x67, 0x89, 0xab, 0xcd, 0xef, 0x01, 0x23, 0x45, 0x67, 0x89, 0xab, 0xcd, 0xef,
      0x01, 0x23, 0x45, 0x67, 0x89, 0xab, 0xcd, 0xef, 0x01, 0x23, 0x45, 0x67, 0x89, 0xab, 0xcd, 0xef]"
  by (simp add: hexToBytes_def demo_key_def ascii_def startsWith_def slice_def substr_def
        hexToBytes_loop.simps parseInt16_def StrWhiteSpaceChar_def is_hex_digit_def
        hex_digit_value_def ToUint8_def)



lemma TextEncoder_lone_surrogate:
  "TextEncoder_encode [0xD800] = [0xEF, 0xBF, 0xBD]"
  "TextEncoder_encode [0xFFFD] = [0xEF, 0xBF, 0xBD]"
  by (simp_all add: TextEncoder_encode_def utf8_encode_def utf8_bytes_def)

lemma encryptContent_lone_surrogate:
  "encryptContent crypto g [0xD800] keyHex = encryptContent crypto g [0xFFFD] keyHex"
  by (simp only: encryptContent_def TextEncoder_lone_surrogate)

lemma replicate_12: "replicate 12 x = [x, x, x, x, x, x, x, x, x, x, x, x]"
  by (simp add: numeral_eq_Suc)




text \<open>
  A leading byte order mark does not come back either: \<open>new TextDecoder()\<close> drops it.
\<close>

lemma envelope_drops_byte_order_mark:
  "encryptContent demo_crypto 7 [0xFEFF, 0x48] demo_key
     = (Inr \<lparr>iv = ascii ''BwcHBwcHBwcHBwcH'',
             encryptedContent =
               ascii ''8LzASQEjRWeJq83vASNFZ4mrze8BI0VniavN7wEjRWeJq83vBwcHBwcHBwcHBwcH''\<rparr>, 8)
   \<and> decryptContent demo_crypto
         (ascii ''8LzASQEjRWeJq83vASNFZ4mrze8BI0VniavN7wEjRWeJq83vBwcHBwcHBwcHBwcH'')
         (ascii ''BwcHBwcHBwcHBwcH'') demo_key
       = Inr [0x48]"
proof -
  have "TextEncoder_encode [0xFEFF, 0x48] = [0xEF, 0xBB, 0xBF, 0x48]"
    by (simp add: TextEncoder_encode_def utf8_encode_def utf8_bytes_def)
  then have "encryptContent demo_crypto 7 [0xFEFF, 0x48] demo_key
     = (Inr \<lparr>iv = ascii ''BwcHBwcHBwcHBwcH'',
             encryptedContent =
               ascii ''8LzASQEjRWeJq83vASNFZ4mrze8BI0VniavN7wEjRWeJq83vBwcHBwcHBwcHBwcH''\<rparr>, 8)"
    by (simp add: encryptContent_def importAesKey_def demo_key_bytes generateIv_def
          demo_crypto_def replicate_12
          bytesToBase64_Inr base64_encode_def base64_char_def ascii_def)
  moreover have "decryptContent demo_crypto
         (ascii ''8LzASQEjRWeJq83vASNFZ4mrze8BI0VniavN7wEjRWeJq83vBwcHBwcHBwcHBwcH'')
         (ascii ''BwcHBwcHBwcHBwcH'') demo_key
       = Inr [0x48]"
    by (simp add: decryptContent_def importAesKey_def demo_key_bytes demo_crypto_def
          base64ToBytes_def atob_def forgiving_base64_decode_def ascii_whitespace_def
          remove_padding_def base64_index_def ascii_def
          TextDecoder_decode_def remove_BOM_def utf8_handler_def utf8_lead_def
          utf8_decoder_init_def utf16_units_def)
  ultimately show ?thesis by simp
qed



end
